theory Spec2Isabelle
  imports Complex_Main "HOL-Library.Word"
begin

section \<open>Data model of \<open>card_detector.py\<close>\<close>

text \<open>
  Python floats are modelled as reals, Python integers as \<open>int\<close>. The constants the
  floats are compared with (1000, 100000, 0.5, 0.8, 150, 100, 50) and the quotients of
  machine-sized integers that are compared with them are far enough apart that the
  comparison of the rounded values is the comparison of the exact ones.

  A \<open>defaultdict(int)\<close> is an association list in insertion order; a key occurs at most
  once. Every exception the code can raise is a value of \<open>error\<close>.
\<close>

datatype error = ZeroDivisionError | AcquisitionError | KeyboardInterrupt

type_synonym counts = "(string \<times> int) list"

text \<open>\<open>d[k] += c\<close> on a \<open>defaultdict(int)\<close>: a missing key is created with value 0 first.\<close>

fun dict_add :: "string \<Rightarrow> int \<Rightarrow> counts \<Rightarrow> counts" where
  "dict_add k c [] = [(k, 0 + c)]"
| "dict_add k c ((k', v) # d) =
     (if k' = k then (k', v + c) # d else (k', v) # dict_add k c d)"

text \<open>The fields of \<open>CardDetector\<close> that the statistics and the session loop use.\<close>

record detector =
  update_interval :: real
  monitor_number :: int
  card_counts :: counts
  total_frames_processed :: int
  total_cards_detected :: int
  session_start_time :: "real option"
  last_update_time :: "real option"
  fps_counter :: int
  current_fps :: real

text \<open>\<open>CardDetector.__init__\<close>\<close>

definition new_detector :: "real \<Rightarrow> int \<Rightarrow> detector" where
  "new_detector interval monitor =
     \<lparr> update_interval = interval,
       monitor_number = monitor,
       card_counts = [],
       total_frames_processed = 0,
       total_cards_detected = 0,
       session_start_time = None,
       last_update_time = None,
       fps_counter = 0,
       current_fps = 0 \<rparr>"

text \<open>\<open>reset_frame_stats\<close>: the body is \<open>pass\<close>.\<close>

definition reset_frame_stats :: "detector \<Rightarrow> detector" where
  "reset_frame_stats st = st"

section \<open>Statistics update of \<open>capture_and_process_frame\<close>\<close>

text \<open>
  The loop \<open>for card_type, count in detected_cards.items()\<close> of
  \<open>capture_and_process_frame\<close>: each pair is added to the cumulative entry of its label
  and to the total.
\<close>

fun add_detected :: "detector \<Rightarrow> counts \<Rightarrow> detector" where
  "add_detected st [] = st"
| "add_detected st ((card_type, n) # rest) =
     add_detected
       (st\<lparr> card_counts := dict_add card_type n (card_counts st),
            total_cards_detected := total_cards_detected st + n \<rparr>) rest"

text \<open>
  The block under \<open># Update statistics\<close>: the frame counter first, unconditionally, then
  the detected cards.
\<close>

definition update_statistics :: "detector \<Rightarrow> counts \<Rightarrow> detector" where
  "update_statistics st detected_cards =
     add_detected (st\<lparr> total_frames_processed := total_frames_processed st + 1 \<rparr>)
       detected_cards"

text \<open>The states after each of a sequence of updates, in order.\<close>

fun update_trace :: "detector \<Rightarrow> counts list \<Rightarrow> detector list" where
  "update_trace st [] = []"
| "update_trace st (t # ts) =
     update_statistics st t # update_trace (update_statistics st t) ts"

text \<open>The sum over all labels of their cumulative counts.\<close>

definition sum_of_counts :: "detector \<Rightarrow> int" where
  "sum_of_counts st = (\<Sum>l \<in> set (map fst (card_counts st)). the (map_of (card_counts st) l))"

definition stats_invariant :: "detector \<Rightarrow> bool" where
  "stats_invariant st \<longleftrightarrow>
     distinct (map fst (card_counts st)) \<and> total_cards_detected st = sum_of_counts st"

section \<open>Region filtering and classification\<close>

text \<open>
  A pixel holds three 8-bit channels in the order B, G, R; an image is its list of rows.
  The contours of a frame come from OpenCV (\<open>Canny\<close>, \<open>findContours\<close>); a contour is
  represented by what the code reads of it: \<open>cv2.contourArea\<close> and the non-negative
  integers \<open>x, y, w, h\<close> of \<open>cv2.boundingRect\<close>.
\<close>

type_synonym pixel = "8 word \<times> 8 word \<times> 8 word"

type_synonym image = "pixel list list"

record contour =
  contour_area :: real
  rect_x :: nat
  rect_y :: nat
  rect_w :: nat
  rect_h :: nat

text \<open>Python's \<open>a / b\<close> on floats raises on a zero divisor.\<close>

definition py_truediv :: "real \<Rightarrow> real \<Rightarrow> error + real" where
  "py_truediv a b = (if b = 0 then Inl ZeroDivisionError else Inr (a / b))"

text \<open>\<open>aspect_ratio = float(w) / h if h > 0 else 0\<close>\<close>

definition aspect_ratio :: "nat \<Rightarrow> nat \<Rightarrow> error + real" where
  "aspect_ratio w h = (if h > 0 then py_truediv (real w) (real h) else Inr 0)"

text \<open>
  The two filters at the head of the loop body of \<open>detect_cards_in_frame\<close>:
  \<open>Inr False\<close> is \<open>continue\<close>, \<open>Inr True\<close> lets the contour through to the classifier.
\<close>

definition passes_filters :: "contour \<Rightarrow> error + bool" where
  "passes_filters c =
     (if contour_area c < 1000 \<or> contour_area c > 100000 then Inr False
      else case aspect_ratio (rect_w c) (rect_h c) of
             Inl e \<Rightarrow> Inl e
           | Inr r \<Rightarrow> if r < 0.5 \<or> r > 0.8 then Inr False else Inr True)"

text \<open>\<open>roi = frame[y:y+h, x:x+w]\<close>\<close>

definition crop :: "image \<Rightarrow> nat \<Rightarrow> nat \<Rightarrow> nat \<Rightarrow> nat \<Rightarrow> image" where
  "crop frame x y w h = map (\<lambda>row. take w (drop x row)) (take h (drop y frame))"

text \<open>\<open>roi.size\<close>: the number of array elements, three per pixel.\<close>

definition roi_size :: "image \<Rightarrow> nat" where
  "roi_size roi = 3 * length (concat roi)"

fun channel :: "nat \<Rightarrow> pixel \<Rightarrow> nat" where
  "channel k (b, g, r) = (if k = 0 then unat b else if k = 1 then unat g else unat r)"

definition channel_values :: "nat \<Rightarrow> image \<Rightarrow> nat list" where
  "channel_values k roi = map (channel k) (concat roi)"

text \<open>
  \<open>np.mean\<close> of the values of one channel. NumPy divides the sum by the count; on no
  values at all the quotient is NaN, here \<open>None\<close>, and every comparison with it is false.
\<close>

definition np_mean :: "nat list \<Rightarrow> real option" where
  "np_mean vs = (if vs = [] then None else Some (real (sum_list vs) / real (length vs)))"

definition nan_less :: "real option \<Rightarrow> real \<Rightarrow> bool" where
  "nan_less a c = (case a of None \<Rightarrow> False | Some v \<Rightarrow> v < c)"

definition nan_greater :: "real option \<Rightarrow> real \<Rightarrow> bool" where
  "nan_greater a c = (case a of None \<Rightarrow> False | Some v \<Rightarrow> v > c)"

text \<open>\<open>_identify_card_type\<close>; \<open>None\<close> is Python's \<open>None\<close>.\<close>

definition identify_card_type :: "image \<Rightarrow> string option" where
  "identify_card_type roi =
     (if roi_size roi = 0 then None
      else
        let avg0 = np_mean (channel_values 0 roi);
            avg1 = np_mean (channel_values 1 roi);
            avg2 = np_mean (channel_values 2 roi)
        in if nan_greater avg2 150 \<and> nan_less avg0 100 \<and> nan_less avg1 100
             then Some ''heart_or_diamond''
           else if nan_less avg0 50 \<and> nan_less avg1 50 \<and> nan_less avg2 50
             then Some ''spade_or_club''
           else Some ''unknown_card'')"

text \<open>
  The loop \<open>for contour in contours\<close> of \<open>detect_cards_in_frame\<close>, with the counts of the
  frame so far. \<open>if card_type:\<close> is false on \<open>None\<close> and on the empty string.
\<close>

fun detect_loop :: "image \<Rightarrow> contour list \<Rightarrow> counts \<Rightarrow> error + counts" where
  "detect_loop frame [] frame_card_counts = Inr frame_card_counts"
| "detect_loop frame (c # cs) frame_card_counts =
     (case passes_filters c of
        Inl e \<Rightarrow> Inl e
      | Inr False \<Rightarrow> detect_loop frame cs frame_card_counts
      | Inr True \<Rightarrow>
          (case identify_card_type (crop frame (rect_x c) (rect_y c) (rect_w c) (rect_h c)) of
             None \<Rightarrow> detect_loop frame cs frame_card_counts
           | Some card_type \<Rightarrow>
               if card_type \<noteq> []
               then detect_loop frame cs (dict_add card_type 1 frame_card_counts)
               else detect_loop frame cs frame_card_counts))"

definition detect_cards_in_frame :: "image \<Rightarrow> contour list \<Rightarrow> error + counts" where
  "detect_cards_in_frame frame contours = detect_loop frame contours []"

section \<open>Frame acquisition and the session loop\<close>

text \<open>
  What one pass through the screen capture can bring: a frame with its contours, a
  failure of the frame source, or Ctrl+C.
\<close>

datatype grab = Grabbed image "contour list" | GrabFailed | Interrupted

text \<open>
  \<open>capture_and_process_frame\<close>. An exception leaves the detector as it was: the
  statistics are updated only after the detection has returned.
\<close>

definition capture_and_process_frame :: "detector \<Rightarrow> grab \<Rightarrow> error + detector" where
  "capture_and_process_frame st g =
     (case g of
        GrabFailed \<Rightarrow> Inl AcquisitionError
      | Interrupted \<Rightarrow> Inl KeyboardInterrupt
      | Grabbed frame contours \<Rightarrow>
          (case detect_cards_in_frame frame contours of
             Inl e \<Rightarrow> Inl e
           | Inr detected_cards \<Rightarrow> Inr (update_statistics st detected_cards)))"

text \<open>
  What \<open>display_statistics\<close> is called with: the detector it prints, in the loop or in
  the \<open>finally\<close> block (under the heading "Final Statistics").
\<close>

datatype printed = Report detector | FinalReport detector

fun is_final :: "printed \<Rightarrow> bool" where
  "is_final (FinalReport st) = True"
| "is_final (Report st) = False"

text \<open>
  The statistics block of the loop body, from \<open>current_time = time.time()\<close> to
  \<open>self.reset_frame_stats()\<close>, with the clock reading as argument. The loop runs with
  \<open>last_update_time\<close> set.
\<close>

definition report :: "detector \<Rightarrow> real \<Rightarrow> error + detector \<times> printed list" where
  "report st current_time =
     (let time_since_update = current_time - the (last_update_time st)
      in if time_since_update \<ge> update_interval st
         then (case py_truediv (real_of_int (fps_counter st)) time_since_update of
                 Inl e \<Rightarrow> Inl e
               | Inr fps \<Rightarrow>
                   let st1 = st\<lparr> current_fps := fps \<rparr>;
                       st2 = st1\<lparr> last_update_time := Some current_time, fps_counter := 0 \<rparr>
                   in Inr (reset_frame_stats st2, [Report st1]))
         else Inr (st, []))"

text \<open>
  One pass of \<open>while True\<close> consumes a tick: the clock reading of the duration check,
  what the capture brings, and the clock reading after the frame.
\<close>

record tick =
  clock_at_check :: real
  grabbed :: grab
  clock_after_frame :: real

text \<open>Truth value of \<open>duration\<close> in \<open>if duration and ...\<close>: \<open>None\<close> and 0 are false.\<close>

definition truthy :: "real option \<Rightarrow> bool" where
  "truthy duration = (case duration of None \<Rightarrow> False | Some d \<Rightarrow> d \<noteq> 0)"

datatype stop = Break | Raised error

text \<open>
  The \<open>while True\<close> loop of \<open>run\<close> over the ticks that the environment supplies. The result
  is how the loop was left, the detector then, and what was displayed; \<open>None\<close> when the
  ticks are used up and the loop is still running.
\<close>

fun run_loop ::
  "real option \<Rightarrow> detector \<Rightarrow> tick list \<Rightarrow> (stop \<times> detector \<times> printed list) option" where
  "run_loop duration st [] = None"
| "run_loop duration st (e # es) =
     (if truthy duration \<and> clock_at_check e - the (session_start_time st) \<ge> the duration
      then Some (Break, st, [])
      else case capture_and_process_frame st (grabbed e) of
             Inl err \<Rightarrow> Some (Raised err, st, [])
           | Inr st1 \<Rightarrow>
               let st2 = st1\<lparr> fps_counter := fps_counter st1 + 1 \<rparr>
               in case report st2 (clock_after_frame e) of
                    Inl err \<Rightarrow> Some (Raised err, st2, [])
                  | Inr (st3, shown) \<Rightarrow>
                      (case run_loop duration st3 es of
                         None \<Rightarrow> None
                       | Some (how, st', shown') \<Rightarrow> Some (how, st', shown @ shown')))"

text \<open>
  \<open>run\<close>, started at clock reading \<open>start\<close>: \<open>except KeyboardInterrupt\<close> swallows the
  interrupt, \<open>finally\<close> displays the statistics on every way out, and any other
  exception goes on to the caller (the first component of the result).
\<close>

definition run ::
  "real option \<Rightarrow> detector \<Rightarrow> real \<Rightarrow> tick list \<Rightarrow> (error option \<times> detector \<times> printed list) option" where
  "run duration st start ticks =
     (let st0 = st\<lparr> session_start_time := Some start, last_update_time := Some start \<rparr>
      in case run_loop duration st0 ticks of
           None \<Rightarrow> None
         | Some (how, st', shown) \<Rightarrow>
             Some ((case how of
                      Break \<Rightarrow> None
                    | Raised KeyboardInterrupt \<Rightarrow> None
                    | Raised err \<Rightarrow> Some err),
                   st', shown @ [FinalReport st']))"

section \<open>Properties of the statistics\<close>

lemma dict_add_keys:
  "fst ` set (dict_add k c d) = insert k (fst ` set d)"
  by (induction d) (force+)

lemma dict_add_distinct:
  "distinct (map fst d) \<Longrightarrow> distinct (map fst (dict_add k c d))"
proof (induction d)
  case Nil
  then show ?case by simp
next
  case (Cons p d)
  obtain k' v where p: "p = (k', v)" by (cases p)
  with Cons show ?case by (auto simp: dict_add_keys)
qed

lemma dict_add_sum_list:
  "sum_list (map snd (dict_add k c d)) = sum_list (map snd d) + c"
  by (induction d) auto

lemma sum_of_counts_sum_list:
  assumes "distinct (map fst d)"
  shows "(\<Sum>l \<in> fst ` set d. the (map_of d l)) = sum_list (map snd d)"
  using assms
proof (induction d)
  case Nil
  then show ?case by simp
next
  case (Cons p d)
  obtain k v where p: "p = (k, v)" by (cases p)
  from Cons.prems p have notin: "k \<notin> fst ` set d" and dist: "distinct (map fst d)"
    by auto
  have "(\<Sum>l \<in> fst ` set d. the (map_of (p # d) l)) =
        (\<Sum>l \<in> fst ` set d. the (map_of d l))"
    using notin p by (intro sum.cong) auto
  with Cons.IH [OF dist] notin p show ?case by simp
qed

lemma stats_invariant_iff:
  "stats_invariant st \<longleftrightarrow>
     distinct (map fst (card_counts st)) \<and>
     total_cards_detected st = sum_list (map snd (card_counts st))"
  by (auto simp: stats_invariant_def sum_of_counts_def sum_of_counts_sum_list)

lemma add_detected_frames:
  "total_frames_processed (add_detected st t) = total_frames_processed st"
  by (induction st t rule: add_detected.induct) auto

lemma add_detected_invariant:
  "stats_invariant st \<Longrightarrow> stats_invariant (add_detected st t)"
proof (induction st t rule: add_detected.induct)
  case (1 st)
  then show ?case by simp
next
  case (2 st card_type n rest)
  let ?st = "st\<lparr> card_counts := dict_add card_type n (card_counts st),
                 total_cards_detected := total_cards_detected st + n \<rparr>"
  from "2.prems" have "stats_invariant ?st"
    by (simp add: stats_invariant_iff dict_add_distinct dict_add_sum_list)
  then show ?case using "2.IH" by simp
qed

lemma update_statistics_invariant:
  "stats_invariant st \<Longrightarrow> stats_invariant (update_statistics st t)"
  unfolding update_statistics_def
  by (rule add_detected_invariant) (simp add: stats_invariant_iff)

lemma new_detector_invariant: "stats_invariant (new_detector interval monitor)"
  by (simp add: stats_invariant_iff new_detector_def)

lemma update_trace_invariant:
  "stats_invariant st \<Longrightarrow> list_all stats_invariant (update_trace st ts)"
  by (induction ts arbitrary: st) (auto simp: update_statistics_invariant)

lemma foldl_update_invariant:
  "stats_invariant st \<Longrightarrow> stats_invariant (foldl update_statistics st ts)"
  by (induction ts arbitrary: st) (auto simp: update_statistics_invariant)

lemma update_statistics_frames:
  "total_frames_processed (update_statistics st t) = total_frames_processed st + 1"
  by (simp add: update_statistics_def add_detected_frames)

lemma foldl_update_frames:
  "total_frames_processed (foldl update_statistics st ts) =
     total_frames_processed st + int (length ts)"
  by (induction ts arbitrary: st) (auto simp: update_statistics_frames)

text \<open>
  C1. Starting from a fresh detector, after each individual update of any sequence of
  frame results the total of labelled detections equals the sum, over all labels, of the
  cumulative per-label counts: it holds for every state of the trace and for the last one.
\<close>

theorem total_equals_sum_of_counts:
  "list_all (\<lambda>st. total_cards_detected st = sum_of_counts st)
     (update_trace (new_detector interval monitor) ts)
   \<and> total_cards_detected (foldl update_statistics (new_detector interval monitor) ts) =
       sum_of_counts (foldl update_statistics (new_detector interval monitor) ts)"
proof
  have "list_all stats_invariant (update_trace (new_detector interval monitor) ts)"
    by (rule update_trace_invariant [OF new_detector_invariant])
  then show "list_all (\<lambda>st. total_cards_detected st = sum_of_counts st)
     (update_trace (new_detector interval monitor) ts)"
    by (simp add: list_all_iff stats_invariant_def)
next
  have "stats_invariant (foldl update_statistics (new_detector interval monitor) ts)"
    by (rule foldl_update_invariant [OF new_detector_invariant])
  then show "total_cards_detected (foldl update_statistics (new_detector interval monitor) ts) =
       sum_of_counts (foldl update_statistics (new_detector interval monitor) ts)"
    by (simp add: stats_invariant_def)
qed

text \<open>
  C5. After any sequence of N updates of a fresh detector the frame counter is exactly N,
  whatever the frame results were (empty or not).
\<close>

theorem frames_processed_equals_appends:
  "total_frames_processed (foldl update_statistics (new_detector interval monitor) ts) =
     int (length ts)"
  by (simp add: foldl_update_frames new_detector_def)

section \<open>Properties of the region filters\<close>

lemma aspect_ratio_ok: "aspect_ratio w h = Inr (if h > 0 then real w / real h else 0)"
  by (simp add: aspect_ratio_def py_truediv_def)

lemma passes_filters_ok:
  "passes_filters c =
     Inr (1000 \<le> contour_area c \<and> contour_area c \<le> 100000 \<and> 0 < rect_h c \<and>
          real (rect_h c) \<le> 2 * real (rect_w c) \<and> 5 * real (rect_w c) \<le> 4 * real (rect_h c))"
  by (auto simp: passes_filters_def aspect_ratio_ok field_simps)

lemma detect_loop_ok: "\<exists>t. detect_loop frame cs fc = Inr t"
  by (induction cs arbitrary: fc)
    (auto simp: passes_filters_ok split: option.splits bool.splits)

lemma detect_cards_in_frame_ok: "\<exists>t. detect_cards_in_frame frame cs = Inr t"
  by (simp add: detect_cards_in_frame_def detect_loop_ok)

text \<open>
  C2, as the code has it. For a contour whose bounding rectangle passes the aspect-ratio
  filter, the area filter lets through exactly the areas of the closed band from 1000 to
  100000: an area of exactly 1000 and an area of exactly 100000 are both admitted.
\<close>

theorem area_filter_closed_band:
  "0 < rect_h c \<Longrightarrow> 1 / 2 \<le> real (rect_w c) / real (rect_h c) \<Longrightarrow>
   real (rect_w c) / real (rect_h c) \<le> 4 / 5 \<Longrightarrow>
   passes_filters c = Inr (1000 \<le> contour_area c \<and> contour_area c \<le> 100000)"
  by (auto simp: passes_filters_def aspect_ratio_def py_truediv_def)

theorem area_filter_closed_band_witness:
  "passes_filters \<lparr> contour_area = 1000, rect_x = 10, rect_y = 20, rect_w = 30, rect_h = 40 \<rparr>
     = Inr True
   \<and> passes_filters \<lparr> contour_area = 100000, rect_x = 0, rect_y = 0, rect_w = 300, rect_h = 400 \<rparr>
     = Inr True
   \<and> passes_filters \<lparr> contour_area = 100000.5, rect_x = 0, rect_y = 0, rect_w = 300, rect_h = 400 \<rparr>
     = Inr False
   \<and> passes_filters \<lparr> contour_area = 999.5, rect_x = 0, rect_y = 0, rect_w = 30, rect_h = 40 \<rparr>
     = Inr False"
  using
    area_filter_closed_band
      [of "\<lparr> contour_area = 1000, rect_x = 10, rect_y = 20, rect_w = 30, rect_h = 40 \<rparr>"]
    area_filter_closed_band
      [of "\<lparr> contour_area = 100000, rect_x = 0, rect_y = 0, rect_w = 300, rect_h = 400 \<rparr>"]
    area_filter_closed_band
      [of "\<lparr> contour_area = 100000.5, rect_x = 0, rect_y = 0, rect_w = 300, rect_h = 400 \<rparr>"]
    area_filter_closed_band
      [of "\<lparr> contour_area = 999.5, rect_x = 0, rect_y = 0, rect_w = 30, rect_h = 40 \<rparr>"]
  by simp

text \<open>
  C2 as stated fails: a contour of area exactly 100000 with a 300 by 400 bounding
  rectangle is not rejected.
\<close>

theorem max_area_contour_admitted:
  "passes_filters \<lparr> contour_area = 100000, rect_x = 0, rect_y = 0, rect_w = 300, rect_h = 400 \<rparr>
     \<noteq> Inr False"
  by (simp add: passes_filters_def aspect_ratio_def py_truediv_def)

text \<open>
  C9. For a contour that passes the area filter and has a bounding rectangle of positive
  height, the aspect-ratio filter lets through exactly the ratios of the closed band from
  0.5 to 0.8; a ratio of exactly 0.5 and a ratio of exactly 0.8 are both admitted.
\<close>

theorem aspect_filter_closed_band:
  "1000 \<le> contour_area c \<Longrightarrow> contour_area c \<le> 100000 \<Longrightarrow> 0 < rect_h c \<Longrightarrow>
   passes_filters c =
     Inr (1 / 2 \<le> real (rect_w c) / real (rect_h c) \<and> real (rect_w c) / real (rect_h c) \<le> 4 / 5)
   \<and> (real (rect_w c) / real (rect_h c) = 1 / 2 \<longrightarrow> passes_filters c = Inr True)
   \<and> (real (rect_w c) / real (rect_h c) = 4 / 5 \<longrightarrow> passes_filters c = Inr True)"
proof -
  assume a: "1000 \<le> contour_area c" "contour_area c \<le> 100000" and h: "0 < rect_h c"
  have eq: "passes_filters c =
     Inr (1 / 2 \<le> real (rect_w c) / real (rect_h c) \<and> real (rect_w c) / real (rect_h c) \<le> 4 / 5)"
    using a h by (auto simp: passes_filters_def aspect_ratio_def py_truediv_def)
  show ?thesis
    unfolding eq by simp
qed

theorem aspect_filter_closed_band_witness:
  "passes_filters \<lparr> contour_area = 5000, rect_x = 0, rect_y = 0, rect_w = 50, rect_h = 100 \<rparr>
     = Inr True
   \<and> passes_filters \<lparr> contour_area = 5000, rect_x = 0, rect_y = 0, rect_w = 80, rect_h = 100 \<rparr>
     = Inr True
   \<and> passes_filters \<lparr> contour_area = 5000, rect_x = 0, rect_y = 0, rect_w = 81, rect_h = 100 \<rparr>
     = Inr False
   \<and> passes_filters \<lparr> contour_area = 5000, rect_x = 0, rect_y = 0, rect_w = 49, rect_h = 100 \<rparr>
     = Inr False"
  using
    aspect_filter_closed_band
      [of "\<lparr> contour_area = 5000, rect_x = 0, rect_y = 0, rect_w = 50, rect_h = 100 \<rparr>"]
    aspect_filter_closed_band
      [of "\<lparr> contour_area = 5000, rect_x = 0, rect_y = 0, rect_w = 80, rect_h = 100 \<rparr>"]
    aspect_filter_closed_band
      [of "\<lparr> contour_area = 5000, rect_x = 0, rect_y = 0, rect_w = 81, rect_h = 100 \<rparr>"]
    aspect_filter_closed_band
      [of "\<lparr> contour_area = 5000, rect_x = 0, rect_y = 0, rect_w = 49, rect_h = 100 \<rparr>"]
  by simp

text \<open>
  C10. For a contour whose bounding rectangle has height 0 the aspect ratio is 0 and no
  division is made (no \<open>ZeroDivisionError\<close>); the contour is rejected, and the detection
  over it returns the empty tally.
\<close>

theorem zero_height_rejected:
  "rect_h c = 0 \<Longrightarrow>
     aspect_ratio (rect_w c) (rect_h c) = Inr 0 \<and> passes_filters c = Inr False \<and>
     detect_cards_in_frame frame [c] = Inr []"
  by (simp add: passes_filters_def aspect_ratio_def detect_cards_in_frame_def)

theorem zero_height_rejected_witness:
  "aspect_ratio 30 0 = Inr 0 \<and>
   passes_filters \<lparr> contour_area = 5000, rect_x = 0, rect_y = 0, rect_w = 30, rect_h = 0 \<rparr>
     = Inr False \<and>
   detect_cards_in_frame [[(0, 0, 0)]]
     [\<lparr> contour_area = 5000, rect_x = 0, rect_y = 0, rect_w = 30, rect_h = 0 \<rparr>] = Inr []"
  using zero_height_rejected
    [of "\<lparr> contour_area = 5000, rect_x = 0, rect_y = 0, rect_w = 30, rect_h = 0 \<rparr>"
        "[[(0, 0, 0)]]"]
  by simp

section \<open>Properties of the classifier\<close>

lemma identify_card_type_means:
  assumes "concat roi \<noteq> []"
  shows "identify_card_type roi =
     (let n = real (length (concat roi));
          m0 = real (sum_list (channel_values 0 roi)) / n;
          m1 = real (sum_list (channel_values 1 roi)) / n;
          m2 = real (sum_list (channel_values 2 roi)) / n
      in if m2 > 150 \<and> m0 < 100 \<and> m1 < 100 then Some ''heart_or_diamond''
         else if m0 < 50 \<and> m1 < 50 \<and> m2 < 50 then Some ''spade_or_club''
         else Some ''unknown_card'')"
proof -
  have m: "np_mean (channel_values k roi) =
      Some (real (sum_list (channel_values k roi)) / real (length (concat roi)))" for k
    using assms by (simp add: np_mean_def channel_values_def del: concat_eq_Nil_conv)
  have sz: "roi_size roi \<noteq> 0"
    using assms by (simp add: roi_size_def del: concat_eq_Nil_conv)
  show ?thesis
    by (simp add: identify_card_type_def sz m nan_less_def nan_greater_def Let_def)
qed

lemma identify_card_type_empty:
  "concat roi = [] \<Longrightarrow> identify_card_type roi = None"
  by (simp add: identify_card_type_def roi_size_def)

text \<open>
  C6. On every region the classifier returns \<open>None\<close> when the region has no element,
  before any mean is taken; otherwise it applies the rules in order to the arithmetic
  means of the three channels: third mean above 150 with first and second below 100 gives
  \<open>heart_or_diamond\<close>, else all three below 50 gives \<open>spade_or_club\<close>, else
  \<open>unknown_card\<close>. Means (50, 50, 200) give \<open>heart_or_diamond\<close>, (30, 30, 30) give
  \<open>spade_or_club\<close>, (100, 100, 100) give \<open>unknown_card\<close>.
\<close>

theorem identify_card_type_rules:
  "identify_card_type roi =
     (let n = real (length (concat roi));
          m0 = real (sum_list (channel_values 0 roi)) / n;
          m1 = real (sum_list (channel_values 1 roi)) / n;
          m2 = real (sum_list (channel_values 2 roi)) / n
      in if roi_size roi = 0 then None
         else if m2 > 150 \<and> m0 < 100 \<and> m1 < 100 then Some ''heart_or_diamond''
         else if m0 < 50 \<and> m1 < 50 \<and> m2 < 50 then Some ''spade_or_club''
         else Some ''unknown_card'')
   \<and> (roi_size roi \<noteq> 0 \<and>
        real (sum_list (channel_values 0 roi)) / real (length (concat roi)) = 50 \<and>
        real (sum_list (channel_values 1 roi)) / real (length (concat roi)) = 50 \<and>
        real (sum_list (channel_values 2 roi)) / real (length (concat roi)) = 200
        \<longrightarrow> identify_card_type roi = Some ''heart_or_diamond'')
   \<and> (roi_size roi \<noteq> 0 \<and>
        real (sum_list (channel_values 0 roi)) / real (length (concat roi)) = 30 \<and>
        real (sum_list (channel_values 1 roi)) / real (length (concat roi)) = 30 \<and>
        real (sum_list (channel_values 2 roi)) / real (length (concat roi)) = 30
        \<longrightarrow> identify_card_type roi = Some ''spade_or_club'')
   \<and> (roi_size roi \<noteq> 0 \<and>
        real (sum_list (channel_values 0 roi)) / real (length (concat roi)) = 100 \<and>
        real (sum_list (channel_values 1 roi)) / real (length (concat roi)) = 100 \<and>
        real (sum_list (channel_values 2 roi)) / real (length (concat roi)) = 100
        \<longrightarrow> identify_card_type roi = Some ''unknown_card'')
   \<and> (roi_size roi = 0 \<longrightarrow> identify_card_type roi = None)"
proof (cases "concat roi = []")
  case True
  then show ?thesis
    by (simp add: identify_card_type_empty roi_size_def Let_def)
next
  case False
  have sz: "roi_size roi \<noteq> 0" using False by (simp add: roi_size_def)
  show ?thesis
    unfolding identify_card_type_means [OF False] using sz by (simp add: Let_def)
qed

theorem identify_card_type_rules_witness:
  "identify_card_type [[(50, 50, 200)]] = Some ''heart_or_diamond'' \<and>
   identify_card_type [[(30, 30, 30)]] = Some ''spade_or_club'' \<and>
   identify_card_type [[(100, 100, 100)]] = Some ''unknown_card'' \<and>
   identify_card_type [[(50, 50, 200), (40, 60, 190)], [(60, 40, 210), (50, 50, 200)]]
     = Some ''heart_or_diamond'' \<and>
   identify_card_type [] = None \<and> identify_card_type [[], []] = None"
  using identify_card_type_rules [of "[[(50, 50, 200)]]"]
    identify_card_type_rules [of "[[(30, 30, 30)]]"]
    identify_card_type_rules [of "[[(100, 100, 100)]]"]
    identify_card_type_rules
      [of "[[(50, 50, 200), (40, 60, 190)], [(60, 40, 210), (50, 50, 200)]]"]
    identify_card_type_rules [of "[]"]
    identify_card_type_rules [of "[[], []]"]
  by (simp add: roi_size_def channel_values_def)

section \<open>Properties of the session loop\<close>

lemmas run_eval = run_def new_detector_def truthy_def capture_and_process_frame_def
  detect_cards_in_frame_def update_statistics_def report_def py_truediv_def
  reset_frame_stats_def Let_def

text \<open>
  With a positive update interval the statistics block never divides by zero: the rate is
  recomputed only when the elapsed time has reached the interval.
\<close>

lemma report_positive_interval:
  assumes "0 < update_interval st" and "last_update_time st = Some t"
  shows "report st now =
     Inr (if now - t \<ge> update_interval st
          then (st\<lparr> current_fps := real_of_int (fps_counter st) / (now - t),
                    last_update_time := Some now, fps_counter := 0 \<rparr>,
                [Report (st\<lparr> current_fps := real_of_int (fps_counter st) / (now - t) \<rparr>)])
          else (st, []))"
  using assms by (simp add: report_def py_truediv_def reset_frame_stats_def Let_def)

lemma report_shows_no_final:
  "report st now = Inr (st', shown) \<Longrightarrow> filter is_final shown = []"
  by (auto simp: report_def Let_def split: if_splits sum.splits)

lemma run_loop_shows_no_final:
  "run_loop duration st ticks = Some (how, st', shown) \<Longrightarrow> filter is_final shown = []"
proof (induction ticks arbitrary: st how st' shown)
  case Nil
  then show ?case by simp
next
  case (Cons e es)
  from Cons.prems show ?case
    by (auto simp: Let_def split: if_splits sum.splits prod.splits option.splits
        dest: report_shows_no_final Cons.IH)
qed

lemma run_loop_stops:
  "\<exists>e \<in> set ticks. grabbed e = Interrupted \<or> grabbed e = GrabFailed \<Longrightarrow>
   run_loop duration st ticks \<noteq> None"
proof (induction ticks arbitrary: st)
  case Nil
  then show ?case by simp
next
  case (Cons e es)
  show ?case
  proof (cases "grabbed e = Interrupted \<or> grabbed e = GrabFailed")
    case True
    then show ?thesis
      by (auto simp: capture_and_process_frame_def)
  next
    case False
    with Cons.prems have "\<exists>e \<in> set es. grabbed e = Interrupted \<or> grabbed e = GrabFailed"
      by auto
    then have ih: "run_loop duration s es \<noteq> None" for s
      by (rule Cons.IH)
    show ?thesis
      by (simp add: Let_def ih split: sum.splits prod.splits option.splits)
  qed
qed

text \<open>
  C7. Whenever \<open>run\<close> returns, whether the loop was left by the duration check, by
  Ctrl+C or by an exception of the frame acquisition (or any other exception), exactly
  one final report has been displayed, as the last thing and of the detector as it then
  is.
\<close>

theorem run_emits_one_final_report:
  "run duration st start ticks = Some (exc, st', shown) \<Longrightarrow>
     length (filter is_final shown) = 1 \<and> last shown = FinalReport st'"
  by (auto simp: run_def Let_def split: option.splits dest: run_loop_shows_no_final)

theorem run_emits_one_final_report_witness:
  "run (Some 5) (new_detector 1 1) 100
     [\<lparr> clock_at_check = 100.5, grabbed = Grabbed [] [], clock_after_frame = 102 \<rparr>,
      \<lparr> clock_at_check = 106, grabbed = Grabbed [] [], clock_after_frame = 106.5 \<rparr>]
   = Some (None,
       (new_detector 1 1)\<lparr> total_frames_processed := 1, session_start_time := Some 100,
          last_update_time := Some 102, current_fps := 1 / 2 \<rparr>,
       [Report ((new_detector 1 1)\<lparr> total_frames_processed := 1,
          session_start_time := Some 100, last_update_time := Some 100, fps_counter := 1,
          current_fps := 1 / 2 \<rparr>),
        FinalReport ((new_detector 1 1)\<lparr> total_frames_processed := 1,
          session_start_time := Some 100, last_update_time := Some 102,
          current_fps := 1 / 2 \<rparr>)])
   \<and> length (filter is_final
       [Report ((new_detector 1 1)\<lparr> total_frames_processed := 1,
          session_start_time := Some 100, last_update_time := Some 100, fps_counter := 1,
          current_fps := 1 / 2 \<rparr>),
        FinalReport ((new_detector 1 1)\<lparr> total_frames_processed := 1,
          session_start_time := Some 100, last_update_time := Some 102,
          current_fps := 1 / 2 \<rparr>)]) = 1
   \<and> run None (new_detector 1 1) 100
     [\<lparr> clock_at_check = 100.5, grabbed = Interrupted, clock_after_frame = 102 \<rparr>]
   = Some (None,
       (new_detector 1 1)\<lparr> session_start_time := Some 100, last_update_time := Some 100 \<rparr>,
       [FinalReport ((new_detector 1 1)\<lparr> session_start_time := Some 100,
          last_update_time := Some 100 \<rparr>)])
   \<and> run None (new_detector 1 1) 100
     [\<lparr> clock_at_check = 100.5, grabbed = GrabFailed, clock_after_frame = 102 \<rparr>]
   = Some (Some AcquisitionError,
       (new_detector 1 1)\<lparr> session_start_time := Some 100, last_update_time := Some 100 \<rparr>,
       [FinalReport ((new_detector 1 1)\<lparr> session_start_time := Some 100,
          last_update_time := Some 100 \<rparr>)])"
proof -
  have a: "run (Some 5) (new_detector 1 1) 100
     [\<lparr> clock_at_check = 100.5, grabbed = Grabbed [] [], clock_after_frame = 102 \<rparr>,
      \<lparr> clock_at_check = 106, grabbed = Grabbed [] [], clock_after_frame = 106.5 \<rparr>]
   = Some (None,
       (new_detector 1 1)\<lparr> total_frames_processed := 1, session_start_time := Some 100,
          last_update_time := Some 102, current_fps := 1 / 2 \<rparr>,
       [Report ((new_detector 1 1)\<lparr> total_frames_processed := 1,
          session_start_time := Some 100, last_update_time := Some 100, fps_counter := 1,
          current_fps := 1 / 2 \<rparr>),
        FinalReport ((new_detector 1 1)\<lparr> total_frames_processed := 1,
          session_start_time := Some 100, last_update_time := Some 102,
          current_fps := 1 / 2 \<rparr>)])"
    by (simp add: run_eval)
  have b: "run None (new_detector 1 1) 100
     [\<lparr> clock_at_check = 100.5, grabbed = Interrupted, clock_after_frame = 102 \<rparr>]
   = Some (None,
       (new_detector 1 1)\<lparr> session_start_time := Some 100, last_update_time := Some 100 \<rparr>,
       [FinalReport ((new_detector 1 1)\<lparr> session_start_time := Some 100,
          last_update_time := Some 100 \<rparr>)])"
    by (simp add: run_eval)
  have c: "run None (new_detector 1 1) 100
     [\<lparr> clock_at_check = 100.5, grabbed = GrabFailed, clock_after_frame = 102 \<rparr>]
   = Some (Some AcquisitionError,
       (new_detector 1 1)\<lparr> session_start_time := Some 100, last_update_time := Some 100 \<rparr>,
       [FinalReport ((new_detector 1 1)\<lparr> session_start_time := Some 100,
          last_update_time := Some 100 \<rparr>)])"
    by (simp add: run_eval)
  from run_emits_one_final_report [OF a] run_emits_one_final_report [OF b]
    run_emits_one_final_report [OF c] a b c
  show ?thesis by simp
qed

text \<open>
  C3, evaluated on the code. A duration of 0 is false in \<open>if duration and ...\<close>, so the
  run behaves as with no duration at all: after two frames, each taken seconds after the
  start, the loop is still running, and it processes both before an interrupt ends it.
\<close>

theorem duration_zero_never_expires:
  "run (Some 0) st start ticks = run None st start ticks
   \<and> run (Some 0) (new_detector 1 1) 100
       [\<lparr> clock_at_check = 101, grabbed = Grabbed [] [], clock_after_frame = 101.5 \<rparr>,
        \<lparr> clock_at_check = 102, grabbed = Grabbed [] [], clock_after_frame = 102.5 \<rparr>] = None
   \<and> map_option (\<lambda>(exc, st', shown). (exc, total_frames_processed st', length shown))
       (run (Some 0) (new_detector 1 1) 100
         [\<lparr> clock_at_check = 101, grabbed = Grabbed [] [], clock_after_frame = 101.5 \<rparr>,
          \<lparr> clock_at_check = 102, grabbed = Grabbed [] [], clock_after_frame = 102.5 \<rparr>,
          \<lparr> clock_at_check = 103, grabbed = Interrupted, clock_after_frame = 103.5 \<rparr>])
       = Some (None, 2, 3)"
proof -
  have "run_loop (Some 0) s ticks = run_loop None s ticks" for s
    by (induction ticks arbitrary: s)
      (auto simp: truthy_def Let_def split: sum.splits prod.splits option.splits)
  then have "run (Some 0) st start ticks = run None st start ticks"
    by (simp add: run_def)
  moreover have "run (Some 0) (new_detector 1 1) 100
       [\<lparr> clock_at_check = 101, grabbed = Grabbed [] [], clock_after_frame = 101.5 \<rparr>,
        \<lparr> clock_at_check = 102, grabbed = Grabbed [] [], clock_after_frame = 102.5 \<rparr>] = None"
    by (simp add: run_eval)
  moreover have "map_option (\<lambda>(exc, st', shown). (exc, total_frames_processed st', length shown))
       (run (Some 0) (new_detector 1 1) 100
         [\<lparr> clock_at_check = 101, grabbed = Grabbed [] [], clock_after_frame = 101.5 \<rparr>,
          \<lparr> clock_at_check = 102, grabbed = Grabbed [] [], clock_after_frame = 102.5 \<rparr>,
          \<lparr> clock_at_check = 103, grabbed = Interrupted, clock_after_frame = 103.5 \<rparr>])
       = Some (None, 2, 3)"
    by (simp add: run_eval)
  ultimately show ?thesis by blast
qed

text \<open>
  C4, evaluated on the code. With an update interval of 0 and no time elapsed since the
  last update, the check \<open>time_since_update >= self.update_interval\<close> holds and the
  division of the frame count 50 by the elapsed 0.0 raises \<open>ZeroDivisionError\<close>; a run
  whose first frame ends at the clock reading of the start ends with that exception, the
  rate still 0.
\<close>

theorem report_elapsed_zero_raises:
  "report (st\<lparr> update_interval := 0, last_update_time := Some t, fps_counter := 50 \<rparr>) t
     = Inl ZeroDivisionError
   \<and> map_option (\<lambda>(exc, st', shown). (exc, current_fps st', length shown))
       (run None (new_detector 0 1) 100
         [\<lparr> clock_at_check = 100, grabbed = Grabbed [] [], clock_after_frame = 100 \<rparr>])
       = Some (Some ZeroDivisionError, 0, 1)"
  by (simp add: run_eval)

text \<open>
  C8. The statistics block of the loop leaves the cumulative statistics as they are:
  total frames, total detections and the per-label counts. At a reporting boundary it
  changes the rate, the time of the last update and the interval-local frame counter,
  and nothing else; off the boundary it changes nothing.
\<close>

theorem report_keeps_cumulative_state:
  "report st now = Inr (st', shown) \<Longrightarrow>
     total_frames_processed st' = total_frames_processed st \<and>
     total_cards_detected st' = total_cards_detected st \<and>
     card_counts st' = card_counts st \<and>
     session_start_time st' = session_start_time st \<and>
     (update_interval st \<le> now - the (last_update_time st) \<longrightarrow>
        st' = st\<lparr> current_fps := real_of_int (fps_counter st) / (now - the (last_update_time st)),
                  last_update_time := Some now, fps_counter := 0 \<rparr>) \<and>
     (now - the (last_update_time st) < update_interval st \<longrightarrow> st' = st \<and> shown = [])"
  by (auto simp: report_def py_truediv_def reset_frame_stats_def Let_def split: if_splits)

theorem report_keeps_cumulative_state_witness:
  "report
     \<lparr> update_interval = 1, monitor_number = 1,
       card_counts = [(''heart_or_diamond'', 5), (''spade_or_club'', 3)],
       total_frames_processed = 30, total_cards_detected = 8,
       session_start_time = Some 100, last_update_time = Some 110,
       fps_counter = 30, current_fps = 12 \<rparr> 112
   = Inr (\<lparr> update_interval = 1, monitor_number = 1,
            card_counts = [(''heart_or_diamond'', 5), (''spade_or_club'', 3)],
            total_frames_processed = 30, total_cards_detected = 8,
            session_start_time = Some 100, last_update_time = Some 112,
            fps_counter = 0, current_fps = 15 \<rparr>,
          [Report \<lparr> update_interval = 1, monitor_number = 1,
            card_counts = [(''heart_or_diamond'', 5), (''spade_or_club'', 3)],
            total_frames_processed = 30, total_cards_detected = 8,
            session_start_time = Some 100, last_update_time = Some 110,
            fps_counter = 30, current_fps = 15 \<rparr>])
   \<and> report
     \<lparr> update_interval = 1, monitor_number = 1,
       card_counts = [(''heart_or_diamond'', 5), (''spade_or_club'', 3)],
       total_frames_processed = 30, total_cards_detected = 8,
       session_start_time = Some 100, last_update_time = Some 110,
       fps_counter = 30, current_fps = 12 \<rparr> 110.5
   = Inr (\<lparr> update_interval = 1, monitor_number = 1,
            card_counts = [(''heart_or_diamond'', 5), (''spade_or_club'', 3)],
            total_frames_processed = 30, total_cards_detected = 8,
            session_start_time = Some 100, last_update_time = Some 110,
            fps_counter = 30, current_fps = 12 \<rparr>, [])"
proof -
  let ?st = "\<lparr> update_interval = 1, monitor_number = 1,
       card_counts = [(''heart_or_diamond'', 5), (''spade_or_club'', 3)],
       total_frames_processed = 30, total_cards_detected = 8,
       session_start_time = Some 100, last_update_time = Some 110,
       fps_counter = 30, current_fps = 12 \<rparr>"
  obtain st1 sh1 where r1: "report ?st 112 = Inr (st1, sh1)"
    by (simp add: report_def py_truediv_def Let_def)
  obtain st2 sh2 where r2: "report ?st 110.5 = Inr (st2, sh2)"
    by (simp add: report_def py_truediv_def Let_def)
  from report_keeps_cumulative_state [OF r1] have "st1 = ?st\<lparr> current_fps := 15,
      last_update_time := Some 112, fps_counter := 0 \<rparr>"
    by simp
  moreover from r1 have "sh1 = [Report (?st\<lparr> current_fps := 15 \<rparr>)]"
    by (simp add: report_def py_truediv_def reset_frame_stats_def Let_def)
  moreover from report_keeps_cumulative_state [OF r2] have "st2 = ?st \<and> sh2 = []"
    by simp
  ultimately show ?thesis using r1 r2 by simp
qed

end
